theory Spec2Isabelle
  imports Main "HOL-Library.AList"
begin

section \<open>The drive-thru order page (frontend/src/routes/+page.svelte)\<close>

text \<open>
  The page keeps five variables (\<open>message\<close>, \<open>history\<close>, \<open>totals\<close>, \<open>loading\<close>,
  \<open>error\<close>), loads orders and totals when it is mounted (\<open>fetchOrders\<close>), posts the
  typed message on submit (\<open>handleSubmit\<close>, \<open>processOrder\<close>) and renders the history.
  The script is TypeScript, but every value that comes from the backend is typed \<open>any\<close>:
  the model therefore works on JavaScript values as \<open>JSON.parse\<close> produces them, and
  every property read or call that can throw is a branch that returns the thrown value.
\<close>

subsection \<open>JavaScript values\<close>

text \<open>
  Strings are sequences of code units below 256 (the Latin-1 range of JavaScript's
  UTF-16 code units). Numbers are the integers, which is what the backend sends for
  ids, quantities and totals. An object is its list of own properties in insertion order;
  a property that holds \<open>undefined\<close> is an entry of the list, as in JavaScript.
\<close>

datatype jsval =
    JUndefined
  | JNull
  | JBool bool
  | JNum int
  | JStr string
  | JArr "jsval list"
  | JObj "(string \<times> jsval) list"

text \<open>
  What a \<open>throw\<close> carries: an \<open>Error\<close> object with its message, or any other value
  (\<open>err instanceof Error\<close> is the only test the handlers make).
\<close>

datatype thrown = ErrorObj string | NonError

text \<open>
  The TypeErrors the engine raises itself. Their wording differs between engines, so
  it is a parameter \<open>eng\<close> of every function that can raise one.
\<close>

datatype type_error =
    NullishRead string   \<comment> \<open>reading the named property of \<open>undefined\<close> or \<open>null\<close>\<close>
  | NotCallable string   \<comment> \<open>calling the named property, which is not a function\<close>

type_synonym engine = "type_error \<Rightarrow> string"

definition nullish :: "jsval \<Rightarrow> bool" where
  "nullish v = (v = JUndefined \<or> v = JNull)"

text \<open>
  \<open>get v k\<close> is the value of \<open>v.k\<close> for a \<open>v\<close> that is neither \<open>undefined\<close> nor \<open>null\<close>.
  The page reads only the keys \<open>action_type\<close>, \<open>actionType\<close>, \<open>items\<close>, \<open>display_message\<close>,
  \<open>item_type\<close>, \<open>itemType\<close>, \<open>quantity\<close>, \<open>id\<close>, \<open>timestamp\<close>, \<open>detail\<close>, \<open>status\<close>,
  \<open>message\<close>, \<open>history\<close> and \<open>totals\<close> this way; none of them is a property of a
  primitive, of an array or of \<open>Object.prototype\<close>, so the read is \<open>undefined\<close> unless
  \<open>v\<close> is an object that has the key.
\<close>

fun get :: "jsval \<Rightarrow> string \<Rightarrow> jsval" where
  "get (JObj kvs) k = (case map_of kvs k of None \<Rightarrow> JUndefined | Some v \<Rightarrow> v)"
| "get _ k = JUndefined"

text \<open>\<open>read_prop eng v k\<close> is the expression \<open>v.k\<close>: a TypeError when \<open>v\<close> is nullish.\<close>

definition read_prop :: "engine \<Rightarrow> jsval \<Rightarrow> string \<Rightarrow> thrown + jsval" where
  "read_prop eng v k =
     (if nullish v then Inl (ErrorObj (eng (NullishRead k))) else Inr (get v k))"

text \<open>Truthiness (\<open>ToBoolean\<close>), as used by \<open>||\<close>, \<open>&&\<close>, \<open>!\<close> and \<open>{#if}\<close>.\<close>

fun truthy :: "jsval \<Rightarrow> bool" where
  "truthy JUndefined = False"
| "truthy JNull = False"
| "truthy (JBool b) = b"
| "truthy (JNum n) = (n \<noteq> 0)"
| "truthy (JStr s) = (s \<noteq> [])"
| "truthy (JArr _) = True"
| "truthy (JObj _) = True"

text \<open>\<open>a || b\<close> on values that are already evaluated.\<close>

definition js_or :: "jsval \<Rightarrow> jsval \<Rightarrow> jsval" where
  "js_or a b = (if truthy a then a else b)"

text \<open>\<open>Array.prototype.join\<close> on an array of strings.\<close>

fun js_join :: "string \<Rightarrow> string list \<Rightarrow> string" where
  "js_join sep [] = []"
| "js_join sep [x] = x"
| "js_join sep (x # y # ys) = x @ sep @ js_join sep (y # ys)"

text \<open>Decimal digits of a number; JavaScript prints an integer below \<open>10^21\<close> this way.\<close>

definition digit_char :: "nat \<Rightarrow> char" where
  "digit_char d = ''0123456789'' ! d"

fun dec_nat :: "nat \<Rightarrow> string" where
  "dec_nat n =
     (if n < 10 then [digit_char n]
      else dec_nat (n div 10) @ [digit_char (n mod 10)])"

declare dec_nat.simps [simp del]

definition num_to_string :: "int \<Rightarrow> string" where
  "num_to_string n = (if n < 0 then ''-'' @ dec_nat (nat (- n)) else dec_nat (nat n))"

text \<open>
  \<open>ToString\<close>, as applied by a template literal and by \<open>new Error(v)\<close>. An array prints
  its elements joined by commas, with \<open>undefined\<close> and \<open>null\<close> elements printed empty.
\<close>

fun to_string :: "jsval \<Rightarrow> string" where
  "to_string JUndefined = ''undefined''"
| "to_string JNull = ''null''"
| "to_string (JBool b) = (if b then ''true'' else ''false'')"
| "to_string (JNum n) = num_to_string n"
| "to_string (JStr s) = s"
| "to_string (JArr xs) =
     js_join '','' (map (\<lambda>x. if x = JUndefined \<or> x = JNull then [] else to_string x) xs)"
| "to_string (JObj _) = ''[object Object]''"

text \<open>
  \<open>String.prototype.trim\<close>: white space and line terminators are removed at both ends.
  Below 256 these are the code units 9 to 13, 32 and 160.
\<close>

definition is_ws :: "char \<Rightarrow> bool" where
  "is_ws c = (of_char c \<in> {9, 10, 11, 12, 13, 32, 160 :: nat})"

definition js_trim :: "string \<Rightarrow> string" where
  "js_trim s = rev (dropWhile is_ws (rev (dropWhile is_ws s)))"

subsection \<open>The history mapper\<close>

text \<open>
  \<open>xs.map(f)\<close> for a callback that can throw: the elements are visited in order and the
  first throw ends the call.
\<close>

fun map_all :: "('a \<Rightarrow> thrown + 'b) \<Rightarrow> 'a list \<Rightarrow> thrown + 'b list" where
  "map_all f [] = Inr []"
| "map_all f (x # xs) =
     (case f x of
        Inl e \<Rightarrow> Inl e
      | Inr y \<Rightarrow> (case map_all f xs of Inl e \<Rightarrow> Inl e | Inr ys \<Rightarrow> Inr (y # ys)))"

text \<open>
  \<open>v.map(f)\<close> for a value \<open>v\<close> read from JSON: only an array has a \<open>map\<close> method.
  A nullish \<open>v\<close> fails at the read of \<open>map\<close>, any other value at the call.
\<close>

fun js_map :: "engine \<Rightarrow> (jsval \<Rightarrow> thrown + 'b) \<Rightarrow> jsval \<Rightarrow> thrown + 'b list" where
  "js_map eng f (JArr xs) = map_all f xs"
| "js_map eng f JUndefined = Inl (ErrorObj (eng (NullishRead ''map'')))"
| "js_map eng f JNull = Inl (ErrorObj (eng (NullishRead ''map'')))"
| "js_map eng f _ = Inl (ErrorObj (eng (NotCallable ''map'')))"

text \<open>
  The inner callback, lines 50-53 and 104-107:
  \<^verbatim>\<open>(item: any) => ({ itemType: item.item_type, quantity: item.quantity })\<close>
\<close>

definition map_item :: "engine \<Rightarrow> jsval \<Rightarrow> thrown + jsval" where
  "map_item eng item =
     (case read_prop eng item ''item_type'' of
        Inl e \<Rightarrow> Inl e
      | Inr ty \<Rightarrow>
          (case read_prop eng item ''quantity'' of
             Inl e \<Rightarrow> Inl e
           | Inr q \<Rightarrow> Inr (JObj [(''itemType'', ty), (''quantity'', q)])))"

text \<open>
  The own properties that \<open>{...item}\<close> copies. Only the spread of an object is
  observable: for every other \<open>item\<close> the callback below throws before it returns.
\<close>

fun spread :: "jsval \<Rightarrow> (string \<times> jsval) list" where
  "spread (JObj kvs) = kvs"
| "spread _ = []"

text \<open>
  The outer callback, lines 47-55 and 101-109:
  \<^verbatim>\<open>(item: any) => ({ ...item, actionType: item.action_type,
       items: item.items.map(...), display_message: item.display_message })\<close>
  A key that the spread already copied keeps its place and takes the new value; a new
  key is added at the end. That is \<open>AList.update\<close>.
\<close>

definition map_record :: "engine \<Rightarrow> jsval \<Rightarrow> thrown + jsval" where
  "map_record eng item =
     (case read_prop eng item ''action_type'' of
        Inl e \<Rightarrow> Inl e
      | Inr at \<Rightarrow>
          (case js_map eng (map_item eng) (get item ''items'') of
             Inl e \<Rightarrow> Inl e
           | Inr its \<Rightarrow>
               Inr (JObj (AList.update ''display_message'' (get item ''display_message'')
                           (AList.update ''items'' (JArr its)
                             (AList.update ''actionType'' at (spread item)))))))"

text \<open>\<open>historyData.map(...)\<close> and \<open>data.history.map(...)\<close>.\<close>

definition map_history :: "engine \<Rightarrow> jsval \<Rightarrow> thrown + jsval list" where
  "map_history eng v = js_map eng (map_record eng) v"

subsection \<open>Page state\<close>

text \<open>
  Lines 29-33. \<open>message\<close> is bound to a text input and is always a string; \<open>history\<close>
  is only ever assigned the result of a \<open>map\<close> call and is always an array; \<open>totals\<close>
  and \<open>error\<close> are assigned values taken from a response body and can hold any value.
\<close>

record state =
  message :: string
  history :: "jsval list"
  totals :: jsval
  loading :: bool
  error :: jsval

definition init_state :: state where
  "init_state =
     \<lparr> message = [],
       history = [],
       totals = JObj [(''burger'', JNum 0), (''fries'', JNum 0), (''drink'', JNum 0)],
       loading = False,
       error = JStr [] \<rparr>"

subsection \<open>Requests and their outcomes\<close>

datatype request = Get_orders | Get_totals | Post_process_order string

text \<open>A promise settles: it is rejected with a thrown value or resolved with a result.\<close>

datatype 'a settled = Rejected thrown | Resolved 'a

text \<open>What \<open>response.json()\<close> settles to.\<close>

datatype body = Unparsable thrown | Parsed jsval

record response =
  http_status :: nat
  json_body :: body

text \<open>\<open>response.ok\<close>: the status is in the range 200 to 299.\<close>

definition response_ok :: "response \<Rightarrow> bool" where
  "response_ok r = (200 \<le> http_status r \<and> http_status r \<le> 299)"

text \<open>
  \<open>Promise.all\<close> of two promises. When both are rejected the one rejected first gives
  the reason; \<open>second_first\<close> says that it was the second.
\<close>

fun promise_all :: "bool \<Rightarrow> 'a settled \<Rightarrow> 'b settled \<Rightarrow> ('a \<times> 'b) settled" where
  "promise_all second_first (Resolved a) (Resolved b) = Resolved (a, b)"
| "promise_all second_first (Rejected e) (Resolved b) = Rejected e"
| "promise_all second_first (Resolved a) (Rejected e) = Rejected e"
| "promise_all second_first (Rejected e1) (Rejected e2) =
     Rejected (if second_first then e2 else e1)"

subsection \<open>fetchOrders\<close>

text \<open>
  Lines 35-61. The function suspends three times: at \<open>Promise.all\<close>, at
  \<open>ordersRes.json()\<close> and at \<open>totalsRes.json()\<close>. Nothing is assigned before the second
  suspension ends, so the model has two phases: the \<open>try\<close> block up to the assignment of
  \<open>history\<close> (lines 42-55) and the assignment of \<open>totals\<close> (line 56). Each phase takes the
  page state at the moment it runs.
\<close>

definition fetchOrders_requests :: "request list" where
  "fetchOrders_requests = [Get_orders, Get_totals]"

definition fetchOrders_assign_history ::
  "engine \<Rightarrow> response \<Rightarrow> response \<Rightarrow> state \<Rightarrow> thrown + state" where
  "fetchOrders_assign_history eng ordersRes totalsRes s =
     (if \<not> response_ok ordersRes \<or> \<not> response_ok totalsRes
      then Inl (ErrorObj ''Failed to fetch data from server'')
      else
        (case json_body ordersRes of
           Unparsable e \<Rightarrow> Inl e
         | Parsed historyData \<Rightarrow>
             (case map_history eng historyData of
                Inl e \<Rightarrow> Inl e
              | Inr h \<Rightarrow> Inr (s\<lparr>history := h\<rparr>))))"

definition fetchOrders_assign_totals :: "response \<Rightarrow> state \<Rightarrow> thrown + state" where
  "fetchOrders_assign_totals totalsRes s =
     (case json_body totalsRes of
        Unparsable e \<Rightarrow> Inl e
      | Parsed t \<Rightarrow> Inr (s\<lparr>totals := t\<rparr>))"

text \<open>The \<open>catch\<close> block, lines 57-60.\<close>

definition fetchOrders_catch :: "thrown \<Rightarrow> state \<Rightarrow> state" where
  "fetchOrders_catch err s =
     s\<lparr>error := JStr (case err of ErrorObj m \<Rightarrow> m | NonError \<Rightarrow> ''Failed to fetch orders'')\<rparr>"

text \<open>
  The state in which \<open>fetchOrders\<close> waits for \<open>totalsRes.json()\<close>, if it gets there:
  \<open>history\<close> is assigned and \<open>totals\<close> is not yet.
\<close>

definition fetchOrders_waiting ::
  "engine \<Rightarrow> bool \<Rightarrow> response settled \<Rightarrow> response settled \<Rightarrow> state \<Rightarrow> state option" where
  "fetchOrders_waiting eng second_first orders totals_p s =
     (case promise_all second_first orders totals_p of
        Rejected e \<Rightarrow> None
      | Resolved (ordersRes, totalsRes) \<Rightarrow>
          (case fetchOrders_assign_history eng ordersRes totalsRes s of
             Inl e \<Rightarrow> None
           | Inr s1 \<Rightarrow> Some s1))"

text \<open>A run of \<open>fetchOrders\<close> during which no other handler changes the state.\<close>

definition fetchOrders ::
  "engine \<Rightarrow> bool \<Rightarrow> response settled \<Rightarrow> response settled \<Rightarrow> state \<Rightarrow> state" where
  "fetchOrders eng second_first orders totals_p s =
     (case promise_all second_first orders totals_p of
        Rejected e \<Rightarrow> fetchOrders_catch e s
      | Resolved (ordersRes, totalsRes) \<Rightarrow>
          (case fetchOrders_assign_history eng ordersRes totalsRes s of
             Inl e \<Rightarrow> fetchOrders_catch e s
           | Inr s1 \<Rightarrow>
               (case fetchOrders_assign_totals totalsRes s1 of
                  Inl e \<Rightarrow> fetchOrders_catch e s1
                | Inr s2 \<Rightarrow> s2)))"

subsection \<open>processOrder and handleSubmit\<close>

text \<open>
  Lines 73-86: the part of \<open>processOrder\<close> that runs before the first \<open>await\<close>. It
  returns the new state and the request it sends; the body is \<open>JSON.stringify({ message })\<close>.
\<close>

definition processOrder_start :: "state \<Rightarrow> state \<times> request list" where
  "processOrder_start s =
     (s\<lparr>loading := True, error := JStr []\<rparr>, [Post_process_order (message s)])"

text \<open>
  Lines 88-111: the rest of the \<open>try\<close> block, run when \<open>fetch\<close> and \<open>response.json()\<close>
  have settled (nothing is assigned between the two). \<open>Inl\<close> is a throw; \<open>Inr\<close> is the
  state at the \<open>return\<close> of line 98 or at the end of the block.
\<close>

definition processOrder_try :: "engine \<Rightarrow> response settled \<Rightarrow> state \<Rightarrow> thrown + state" where
  "processOrder_try eng fetched s =
     (case fetched of
        Rejected e \<Rightarrow> Inl e
      | Resolved resp \<Rightarrow>
          (case json_body resp of
             Unparsable e \<Rightarrow> Inl e
           | Parsed data \<Rightarrow>
               if \<not> response_ok resp then
                 (case read_prop eng data ''detail'' of
                    Inl e \<Rightarrow> Inl e
                  | Inr d \<Rightarrow>
                      Inl (ErrorObj (to_string (js_or d (JStr ''Failed to process order'')))))
               else
                 (case read_prop eng data ''status'' of
                    Inl e \<Rightarrow> Inl e
                  | Inr st \<Rightarrow>
                      if st = JStr ''error'' then
                        Inr (s\<lparr>error := js_or (get data ''display_message'') (get data ''message'')\<rparr>)
                      else
                        (case map_history eng (get data ''history'') of
                           Inl e \<Rightarrow> Inl e
                         | Inr h \<Rightarrow>
                             Inr (s\<lparr>history := h, totals := get data ''totals'',
                                     message := []\<rparr>)))))"

text \<open>The \<open>catch\<close> block, lines 112-114.\<close>

definition processOrder_catch :: "thrown \<Rightarrow> state \<Rightarrow> state" where
  "processOrder_catch err s =
     s\<lparr>error := JStr (case err of ErrorObj m \<Rightarrow> m | NonError \<Rightarrow> ''Failed to process order'')\<rparr>"

text \<open>
  Everything after the suspension: the \<open>try\<close> block, the \<open>catch\<close> block when it throws,
  and the \<open>finally\<close> block of lines 115-117 on every path.
\<close>

definition processOrder_resume :: "engine \<Rightarrow> response settled \<Rightarrow> state \<Rightarrow> state" where
  "processOrder_resume eng fetched s =
     (case processOrder_try eng fetched s of
        Inl e \<Rightarrow> processOrder_catch e s
      | Inr s' \<Rightarrow> s')\<lparr>loading := False\<rparr>"

text \<open>A whole submit during which no other handler changes the state.\<close>

definition processOrder :: "engine \<Rightarrow> response settled \<Rightarrow> state \<Rightarrow> state" where
  "processOrder eng fetched s = processOrder_resume eng fetched (fst (processOrder_start s))"

text \<open>
  Lines 63-71. The result is the state when the handler returns and the requests it has
  sent. (\<open>console.log\<close> and \<open>event.preventDefault()\<close> touch neither.)
\<close>

definition handleSubmit :: "state \<Rightarrow> state \<times> request list" where
  "handleSubmit s =
     (if js_trim (message s) = [] then (s, []) else processOrder_start s)"

subsection \<open>Rendering\<close>


text \<open>
  One row of the history panel, lines 184-206. \<open>Cancelled i\<close> is the red label
  \<open>#i - Cancelled\<close>, \<open>Plain i a\<close> the text \<open>#i - a\<close>; \<open>Message m\<close> is the red span that
  shows the display message, \<open>Items t\<close> the span with the item listing \<open>t\<close>. \<open>stamp\<close> is
  the value handed to \<open>new Date\<close>; how the locale prints it is outside the model.
\<close>

datatype heading = Cancelled jsval | Plain jsval jsval

datatype detail = Message jsval | Items string

record row =
  row_class :: string
  heading :: heading
  stamp :: jsval
  detail :: detail

text \<open>Line 202, the callback: the template literal \<open>`${item.quantity} ${item.itemType}`\<close>.\<close>

definition item_text :: "engine \<Rightarrow> jsval \<Rightarrow> thrown + string" where
  "item_text eng item =
     (case read_prop eng item ''quantity'' of
        Inl e \<Rightarrow> Inl e
      | Inr q \<Rightarrow>
          (case read_prop eng item ''itemType'' of
             Inl e \<Rightarrow> Inl e
           | Inr ty \<Rightarrow> Inr (to_string q @ '' '' @ to_string ty)))"

text \<open>Line 202: \<open>item.items.map(...).join(', ')\<close>.\<close>

definition items_text :: "engine \<Rightarrow> jsval \<Rightarrow> thrown + string" where
  "items_text eng item =
     (case js_map eng (item_text eng) (get item ''items'') of
        Inl e \<Rightarrow> Inl e
      | Inr ts \<Rightarrow> Inr (js_join '', '' ts))"

definition render_entry :: "engine \<Rightarrow> jsval \<Rightarrow> thrown + row" where
  "render_entry eng item =
     (case read_prop eng item ''actionType'' of
        Inl e \<Rightarrow> Inl e
      | Inr at \<Rightarrow>
          (case (if at = JStr ''cancel'' \<and> truthy (get item ''display_message'')
                 then Inr (Message (get item ''display_message''))
                 else (case items_text eng item of
                         Inl e \<Rightarrow> Inl e
                       | Inr t \<Rightarrow> Inr (Items t))) of
             Inl e \<Rightarrow> Inl e
           | Inr d \<Rightarrow>
               Inr \<lparr> row_class = ''flex justify-between items-center p-4 rounded-lg '' @
                       (if at = JStr ''cancel'' then ''bg-red-50 border border-red-200''
                        else ''bg-gray-50''),
                     heading = (if at = JStr ''cancel'' then Cancelled (get item ''id'')
                                else Plain (get item ''id'') at),
                     stamp = get item ''timestamp'',
                     detail = d \<rparr>))"

text \<open>The history panel, lines 179-209.\<close>

datatype panel = No_orders | Rows "row list"

definition render_history :: "engine \<Rightarrow> jsval list \<Rightarrow> thrown + panel" where
  "render_history eng h =
     (if length h = 0 then Inr No_orders
      else (case map_all (render_entry eng) h of
              Inl e \<Rightarrow> Inl e
            | Inr rows \<Rightarrow> Inr (Rows rows)))"

subsection \<open>The wire format and example values\<close>

text \<open>
  The shape of a history record on the wire, as far as the mapper depends on it: the
  record is an object and its \<open>items\<close> field is an array of objects.
\<close>

definition is_object :: "jsval \<Rightarrow> bool" where
  "is_object v = (case v of JObj _ \<Rightarrow> True | _ \<Rightarrow> False)"

definition backend_record :: "jsval \<Rightarrow> bool" where
  "backend_record r =
     (is_object r \<and> (case get r ''items'' of JArr its \<Rightarrow> list_all is_object its | _ \<Rightarrow> False))"

text \<open>A wording for the engine's TypeErrors, for the examples.\<close>

definition example_engine :: engine where
  "example_engine te =
     (case te of
        NullishRead k \<Rightarrow> ''Cannot read properties of undefined (reading '' @ k @ '')''
      | NotCallable k \<Rightarrow> k @ '' is not a function'')"

text \<open>An order of one burger and one fries as the backend sends it, and as the page keeps it.\<close>

definition burger_order :: jsval where
  "burger_order =
     JObj [(''id'', JNum 1), (''action_type'', JStr ''order''),
           (''items'', JArr [JObj [(''item_type'', JStr ''burger''), (''quantity'', JNum 1)],
                             JObj [(''item_type'', JStr ''fries''), (''quantity'', JNum 1)]]),
           (''timestamp'', JStr ''2025-01-01T12:00:00'')]"

definition burger_order_mapped :: jsval where
  "burger_order_mapped =
     JObj [(''id'', JNum 1), (''action_type'', JStr ''order''),
           (''items'', JArr [JObj [(''itemType'', JStr ''burger''), (''quantity'', JNum 1)],
                             JObj [(''itemType'', JStr ''fries''), (''quantity'', JNum 1)]]),
           (''timestamp'', JStr ''2025-01-01T12:00:00''),
           (''actionType'', JStr ''order''), (''display_message'', JUndefined)]"

text \<open>A mapped item record that is mapped again: \<open>item_type\<close> is not there any more.\<close>

definition forget_item_type :: "jsval \<Rightarrow> jsval" where
  "forget_item_type i = JObj [(''itemType'', JUndefined), (''quantity'', get i ''quantity'')]"

text \<open>A cancellation as the backend sends it, and as the page keeps it.\<close>

definition cancel_order :: jsval where
  "cancel_order =
     JObj [(''id'', JNum 2), (''action_type'', JStr ''cancel''), (''items'', JArr []),
           (''timestamp'', JStr ''2025-01-01T12:05:00''),
           (''display_message'', JStr ''Order #2 cancelled'')]"

definition cancel_order_mapped :: jsval where
  "cancel_order_mapped =
     JObj [(''id'', JNum 2), (''action_type'', JStr ''cancel''), (''items'', JArr []),
           (''timestamp'', JStr ''2025-01-01T12:05:00''),
           (''display_message'', JStr ''Order #2 cancelled''),
           (''actionType'', JStr ''cancel'')]"

text \<open>An order that carries a display message although it is not a cancellation.\<close>

definition noted_order :: jsval where
  "noted_order =
     JObj [(''id'', JNum 3), (''action_type'', JStr ''order''),
           (''items'', JArr [JObj [(''item_type'', JStr ''burger''), (''quantity'', JNum 2)]]),
           (''timestamp'', JStr ''2025-01-01T12:10:00''),
           (''display_message'', JStr ''Order #3 placed'')]"

definition noted_order_mapped :: jsval where
  "noted_order_mapped =
     JObj [(''id'', JNum 3), (''action_type'', JStr ''order''),
           (''items'', JArr [JObj [(''itemType'', JStr ''burger''), (''quantity'', JNum 2)]]),
           (''timestamp'', JStr ''2025-01-01T12:10:00''),
           (''display_message'', JStr ''Order #3 placed''),
           (''actionType'', JStr ''order'')]"

text \<open>Responses of \<open>POST /process-order\<close>: a success, a 404 with a detail, and two
  application-level rejections, the second without any message.\<close>

definition success_response :: response where
  "success_response =
     \<lparr> http_status = 200,
       json_body = Parsed (JObj
         [(''status'', JStr ''success''),
          (''history'', JArr [burger_order, cancel_order]),
          (''totals'', JObj [(''burger'', JNum 1), (''fries'', JNum 1), (''drink'', JNum 0)])]) \<rparr>"

definition not_found_response :: response where
  "not_found_response =
     \<lparr> http_status = 404,
       json_body = Parsed (JObj [(''detail'', JStr ''Order not found'')]) \<rparr>"



text \<open>Responses of \<open>GET /orders\<close> and \<open>GET /totals\<close>: two good ones, one whose body is
  not JSON, and a server error.\<close>

definition orders_response :: response where
  "orders_response = \<lparr> http_status = 200, json_body = Parsed (JArr [burger_order]) \<rparr>"

definition totals_response :: response where
  "totals_response =
     \<lparr> http_status = 200,
       json_body = Parsed (JObj [(''burger'', JNum 1), (''fries'', JNum 1), (''drink'', JNum 0)]) \<rparr>"

definition garbled_response :: response where
  "garbled_response =
     \<lparr> http_status = 200, json_body = Unparsable (ErrorObj ''Unexpected end of JSON input'') \<rparr>"

definition failed_response :: response where
  "failed_response = \<lparr> http_status = 500, json_body = Parsed (JObj []) \<rparr>"

text \<open>A page state in the middle of a submit, with one cancellation in its history.\<close>

definition busy_state :: state where
  "busy_state =
     \<lparr> message = ''one burger and one fries'',
       history = [cancel_order_mapped],
       totals = JObj [(''burger'', JNum 0), (''fries'', JNum 0), (''drink'', JNum 2)],
       loading = True,
       error = JStr [] \<rparr>"

section \<open>Properties\<close>

subsection \<open>The mapper\<close>

lemma map_item_Inr_iff:
  "map_item eng i = Inr j \<longleftrightarrow>
     \<not> nullish i \<and> j = JObj [(''itemType'', get i ''item_type''), (''quantity'', get i ''quantity'')]"
  by (auto simp: map_item_def read_prop_def)

lemma js_map_Inr: "js_map eng f v = Inr ys \<Longrightarrow> \<exists>xs. v = JArr xs \<and> map_all f xs = Inr ys"
  by (cases v) auto

lemma map_all_map: "(\<And>x. x \<in> set xs \<Longrightarrow> f x = Inr (g x)) \<Longrightarrow> map_all f xs = Inr (map g xs)"
  by (induction xs) auto

lemma map_all_items_nullish:
  "map_all (map_item eng) xs = Inr ys \<Longrightarrow> x \<in> set xs \<Longrightarrow> \<not> nullish x"
  by (induction xs arbitrary: ys) (auto simp: map_item_Inr_iff split: sum.splits)

lemma map_all_items_ok:
  assumes "\<forall>x \<in> set xs. \<not> nullish x"
  shows "map_all (map_item eng) xs =
     Inr (map (\<lambda>i. JObj [(''itemType'', get i ''item_type''), (''quantity'', get i ''quantity'')]) xs)"
  by (rule map_all_map) (use assms in \<open>simp add: map_item_Inr_iff\<close>)

lemma map_all_items:
  "map_all (map_item eng) xs = Inr ys \<longleftrightarrow>
     (\<forall>x \<in> set xs. \<not> nullish x) \<and>
     ys = map (\<lambda>i. JObj [(''itemType'', get i ''item_type''), (''quantity'', get i ''quantity'')]) xs"
  using map_all_items_nullish[of eng xs ys] map_all_items_ok[of xs eng] by auto

lemma map_record_Inr_iff:
  "map_record eng r = Inr u \<longleftrightarrow>
     (\<exists>its. \<not> nullish r \<and> get r ''items'' = JArr its \<and> (\<forall>i \<in> set its. \<not> nullish i) \<and>
        u = JObj (AList.update ''display_message'' (get r ''display_message'')
                  (AList.update ''items''
                     (JArr (map (\<lambda>i. JObj [(''itemType'', get i ''item_type''),
                                             (''quantity'', get i ''quantity'')]) its))
                     (AList.update ''actionType'' (get r ''action_type'') (spread r)))))"
proof (cases "\<exists>its. get r ''items'' = JArr its \<and> (\<forall>i \<in> set its. \<not> nullish i)")
  case True
  then show ?thesis
    unfolding map_record_def read_prop_def
    by (auto simp: map_all_items_ok)
next
  case False
  then have "\<not> nullish r \<Longrightarrow> \<exists>e. js_map eng (map_item eng) (get r ''items'') = Inl e"
    by (cases "get r ''items''") (auto simp: map_all_items split: sum.splits intro: sum.exhaust)
  with False show ?thesis
    unfolding map_record_def read_prop_def
    by (auto split: sum.splits)
qed

lemma get_update: "get (JObj (AList.update k v kvs)) k' = (if k' = k then v else get (JObj kvs) k')"
  by (simp add: AList.update_conv')

text \<open>
  C7. The record mapper is total on backend history records and tolerates an absent
  \<open>display_message\<close>. For every record of the wire shape it does not throw and returns
  the UI record: the record's own fields, with \<open>actionType\<close> set to its \<open>action_type\<close>,
  \<open>items\<close> set to the array of \<open>{itemType, quantity}\<close> records made from its items
  (\<open>itemType\<close> from \<open>item_type\<close>), and \<open>display_message\<close> set to its
  \<open>display_message\<close>; every other field reads as in the record. When the record has no
  \<open>display_message\<close> the UI record's display message is \<open>undefined\<close>. (The page keeps the
  field under the key \<open>display_message\<close>; the key \<open>displayMessage\<close> also reads \<open>undefined\<close>
  unless the backend record itself has it.)
\<close>

theorem map_record_total:
  assumes "backend_record r"
  shows "\<exists>u kvs its.
           map_record eng r = Inr u \<and> r = JObj kvs \<and> get r ''items'' = JArr its \<and>
           u = JObj (AList.update ''display_message'' (get r ''display_message'')
                 (AList.update ''items''
                    (JArr (map (\<lambda>i. JObj [(''itemType'', get i ''item_type''),
                                            (''quantity'', get i ''quantity'')]) its))
                    (AList.update ''actionType'' (get r ''action_type'') kvs))) \<and>
           get u ''actionType'' = get r ''action_type'' \<and>
           get u ''items'' =
             JArr (map (\<lambda>i. JObj [(''itemType'', get i ''item_type''),
                                     (''quantity'', get i ''quantity'')]) its) \<and>
           get u ''display_message'' = get r ''display_message'' \<and>
           (\<forall>k. k \<noteq> ''actionType'' \<and> k \<noteq> ''items'' \<and> k \<noteq> ''display_message'' \<longrightarrow>
                get u k = get r k) \<and>
           (get r ''display_message'' = JUndefined \<longrightarrow> get u ''display_message'' = JUndefined) \<and>
           (get r ''displayMessage'' = JUndefined \<longrightarrow> get u ''displayMessage'' = JUndefined)"
proof -
  from assms obtain kvs its where r: "r = JObj kvs" and its: "get r ''items'' = JArr its"
    and obj: "list_all is_object its"
    by (auto simp: backend_record_def is_object_def split: jsval.splits)
  have nn: "\<forall>i \<in> set its. \<not> nullish i"
    using obj by (auto simp: list_all_iff is_object_def nullish_def)
  define u where "u = JObj (AList.update ''display_message'' (get r ''display_message'')
                 (AList.update ''items''
                    (JArr (map (\<lambda>i. JObj [(''itemType'', get i ''item_type''),
                                            (''quantity'', get i ''quantity'')]) its))
                    (AList.update ''actionType'' (get r ''action_type'') kvs)))"
  have m: "map_record eng r = Inr u"
    using r its nn by (simp add: map_record_Inr_iff nullish_def u_def del: get.simps)
  have g: "get u k =
      (if k = ''display_message'' then get r ''display_message''
       else if k = ''items'' then
         JArr (map (\<lambda>i. JObj [(''itemType'', get i ''item_type''),
                                 (''quantity'', get i ''quantity'')]) its)
       else if k = ''actionType'' then get r ''action_type''
       else get r k)" for k
    unfolding u_def by (simp add: get_update r del: get.simps)
  have f1: "get u ''actionType'' = get r ''action_type''"
    and f2: "get u ''items'' = JArr (map (\<lambda>i. JObj [(''itemType'', get i ''item_type''),
                                     (''quantity'', get i ''quantity'')]) its)"
    and f3: "get u ''display_message'' = get r ''display_message''"
    and f4: "\<forall>k. k \<noteq> ''actionType'' \<and> k \<noteq> ''items'' \<and> k \<noteq> ''display_message'' \<longrightarrow>
                get u k = get r k"
    and f5: "get r ''display_message'' = JUndefined \<longrightarrow> get u ''display_message'' = JUndefined"
    and f6: "get r ''displayMessage'' = JUndefined \<longrightarrow> get u ''displayMessage'' = JUndefined"
    by (simp_all add: g)
  show ?thesis
    by (intro exI [of _ u] exI [of _ kvs] exI [of _ its] conjI m r its u_def f1 f2 f3 f4 f5 f6)
qed

theorem map_record_total_witness:
  "backend_record burger_order \<and> get burger_order ''display_message'' = JUndefined \<and>
   get burger_order ''displayMessage'' = JUndefined \<and>
   map_record example_engine burger_order = Inr burger_order_mapped \<and>
   get burger_order_mapped ''actionType'' = JStr ''order'' \<and>
   get burger_order_mapped ''items'' =
     JArr [JObj [(''itemType'', JStr ''burger''), (''quantity'', JNum 1)],
           JObj [(''itemType'', JStr ''fries''), (''quantity'', JNum 1)]] \<and>
   get burger_order_mapped ''display_message'' = JUndefined \<and>
   get burger_order_mapped ''displayMessage'' = JUndefined"
proof -
  have b: "backend_record burger_order"
    by (simp add: backend_record_def is_object_def burger_order_def)
  have d: "get burger_order ''display_message'' = JUndefined"
    "get burger_order ''displayMessage'' = JUndefined"
    by (simp_all add: burger_order_def)
  from map_record_total [OF b, of example_engine]
  have m: "map_record example_engine burger_order = Inr burger_order_mapped"
    by (elim exE conjE) (clarsimp simp: burger_order_def burger_order_mapped_def)
  have "get burger_order_mapped ''actionType'' = JStr ''order''"
    and "get burger_order_mapped ''items'' =
      JArr [JObj [(''itemType'', JStr ''burger''), (''quantity'', JNum 1)],
            JObj [(''itemType'', JStr ''fries''), (''quantity'', JNum 1)]]"
    and "get burger_order_mapped ''display_message'' = JUndefined"
    and "get burger_order_mapped ''displayMessage'' = JUndefined"
    by (simp_all add: burger_order_mapped_def)
  with m b d show ?thesis by simp
qed

text \<open>
  C8, as amended. Mapping an already mapped record does not throw and gives the
  once-mapped record again in every top-level field, but each nested item record has lost
  its \<open>itemType\<close> (it is \<open>undefined\<close>, the quantity is kept). So the mapper is idempotent
  on records without items, and not in general.
\<close>

theorem map_record_twice:
  assumes "map_record eng r = Inr u"
  shows "\<exists>kvs its. u = JObj kvs \<and> get u ''items'' = JArr its \<and>
           map_record eng u =
             Inr (JObj (AList.update ''items'' (JArr (map forget_item_type its)) kvs)) \<and>
           (its = [] \<longrightarrow> map_record eng u = Inr u)"
proof -
  from assms obtain its0 where nn: "\<not> nullish r" and i0: "get r ''items'' = JArr its0"
    and u: "u = JObj (AList.update ''display_message'' (get r ''display_message'')
                  (AList.update ''items''
                     (JArr (map (\<lambda>i. JObj [(''itemType'', get i ''item_type''),
                                             (''quantity'', get i ''quantity'')]) its0))
                     (AList.update ''actionType'' (get r ''action_type'') (spread r))))"
    by (auto simp: map_record_Inr_iff)
  from i0 obtain kvs0 where r: "r = JObj kvs0" by (cases r) auto
  define its where "its = map (\<lambda>i. JObj [(''itemType'', get i ''item_type''),
                                             (''quantity'', get i ''quantity'')]) its0"
  define kvs where "kvs = AList.update ''display_message'' (get r ''display_message'')
                  (AList.update ''items'' (JArr its)
                     (AList.update ''actionType'' (get r ''action_type'') (spread r)))"
  have ukvs: "u = JObj kvs" using u by (simp add: kvs_def its_def)
  have g_items: "get u ''items'' = JArr its"
    and g_dm: "map_of kvs ''display_message'' = Some (get r ''display_message'')"
    and g_at: "map_of kvs ''actionType'' = Some (get r ''action_type'')"
    and g_a: "get u ''action_type'' = get r ''action_type''"
    unfolding ukvs kvs_def using r
    by (simp_all add: AList.update_conv' split: option.splits)
  have nn_its: "\<forall>i \<in> set its. \<not> nullish i"
    by (auto simp: its_def nullish_def)
  have fg: "map (\<lambda>i. JObj [(''itemType'', get i ''item_type''), (''quantity'', get i ''quantity'')]) its
            = map forget_item_type its"
    by (simp add: its_def forget_item_type_def)
  have t1: "AList.update ''actionType'' (get u ''action_type'') kvs = kvs"
    using g_at g_a by (simp add: AList.update_triv)
  have t2: "AList.update ''display_message'' (get u ''display_message'')
              (AList.update ''items'' (JArr (map forget_item_type its)) kvs)
            = AList.update ''items'' (JArr (map forget_item_type its)) kvs"
    using g_dm unfolding ukvs
    by (intro AList.update_triv) (simp add: AList.update_conv')
  have "\<not> nullish u" using ukvs by (simp add: nullish_def)
  with g_items nn_its have step: "map_record eng u =
      Inr (JObj (AList.update ''display_message'' (get u ''display_message'')
             (AList.update ''items''
                (JArr (map (\<lambda>i. JObj [(''itemType'', get i ''item_type''),
                                        (''quantity'', get i ''quantity'')]) its))
                (AList.update ''actionType'' (get u ''action_type'') (spread u)))))"
    by (simp add: map_record_Inr_iff)
  have spread_u: "spread u = kvs" by (simp add: ukvs)
  have twice: "map_record eng u =
      Inr (JObj (AList.update ''items'' (JArr (map forget_item_type its)) kvs))"
    using step unfolding spread_u t1 fg t2 .
  then have ?thesis if "its \<noteq> []" using that ukvs g_items by simp
  moreover have "its = [] \<Longrightarrow> AList.update ''items'' (JArr (map forget_item_type its)) kvs = kvs"
    using g_items unfolding ukvs
    by (intro AList.update_triv) (simp split: option.splits)
  with twice have ?thesis if "its = []" using that ukvs g_items by simp
  ultimately show ?thesis by blast
qed

theorem map_record_twice_witness:
  "map_record example_engine burger_order = Inr burger_order_mapped \<and>
   (\<exists>kvs its. burger_order_mapped = JObj kvs \<and> get burger_order_mapped ''items'' = JArr its \<and>
      map_record example_engine burger_order_mapped =
        Inr (JObj (AList.update ''items'' (JArr (map forget_item_type its)) kvs)) \<and>
      (its = [] \<longrightarrow> map_record example_engine burger_order_mapped = Inr burger_order_mapped))"
proof -
  have m: "map_record example_engine burger_order = Inr burger_order_mapped"
    by (simp add: map_record_def read_prop_def nullish_def map_item_def burger_order_def
        burger_order_mapped_def)
  show ?thesis using m map_record_twice [OF m] by simp
qed

text \<open>
  C8 as stated fails: the mapped burger order, mapped again, is a different record.
\<close>

theorem map_record_not_idempotent:
  "map_record example_engine burger_order = Inr burger_order_mapped \<and>
   map_record example_engine burger_order_mapped \<noteq> Inr burger_order_mapped"
  by (simp add: map_record_def read_prop_def nullish_def map_item_def burger_order_def
        burger_order_mapped_def)

subsection \<open>The submit flow\<close>

lemma processOrder_resume_rejected:
  "processOrder_resume eng (Rejected e) s =
     s\<lparr>error := JStr (case e of ErrorObj m \<Rightarrow> m | NonError \<Rightarrow> ''Failed to process order''),
       loading := False\<rparr>"
  by (simp add: processOrder_resume_def processOrder_try_def processOrder_catch_def)

lemma processOrder_try_not_ok:
  "\<not> response_ok resp \<Longrightarrow> \<exists>e. processOrder_try eng (Resolved resp) s = Inl e"
  by (auto simp: processOrder_try_def split: body.splits sum.splits)

lemma processOrder_resume_throw:
  "processOrder_try eng fetched s = Inl e \<Longrightarrow>
   processOrder_resume eng fetched s =
     s\<lparr>error := JStr (case e of ErrorObj m \<Rightarrow> m | NonError \<Rightarrow> ''Failed to process order''),
       loading := False\<rparr>"
  by (simp add: processOrder_resume_def processOrder_catch_def)

lemma processOrder_try_detail:
  "\<not> response_ok resp \<Longrightarrow> json_body resp = Parsed data \<Longrightarrow> \<not> nullish data \<Longrightarrow>
   processOrder_try eng (Resolved resp) s =
     Inl (ErrorObj (if truthy (get data ''detail'') then to_string (get data ''detail'')
                    else ''Failed to process order''))"
  by (simp add: processOrder_try_def read_prop_def js_or_def)

text \<open>
  C1. When the response of a submit is successful (status 200 to 299), its body's
  \<open>status\<close> field is not \<open>"error"\<close> and the body's history maps to \<open>h\<close>, then after
  the submit \<open>history\<close> is exactly \<open>h\<close> and \<open>totals\<close> is exactly the body's \<open>totals\<close>,
  whatever the two held before, and \<open>message\<close> is the empty string.
\<close>

theorem processOrder_success:
  assumes "response_ok resp" and "json_body resp = Parsed data"
    and "get data ''status'' \<noteq> JStr ''error''"
    and "map_history eng (get data ''history'') = Inr h"
  shows "history (processOrder_resume eng (Resolved resp) s) = h \<and>
         totals (processOrder_resume eng (Resolved resp) s) = get data ''totals'' \<and>
         message (processOrder_resume eng (Resolved resp) s) = []"
proof -
  have "\<not> nullish data"
    using assms(4) by (auto simp: nullish_def map_history_def)
  with assms have "processOrder_try eng (Resolved resp) s =
      Inr (s\<lparr>history := h, totals := get data ''totals'', message := []\<rparr>)"
    by (simp add: processOrder_try_def read_prop_def)
  then show ?thesis by (simp add: processOrder_resume_def)
qed

theorem processOrder_success_witness:
  "response_ok success_response \<and>
   json_body success_response = Parsed (JObj
         [(''status'', JStr ''success''),
          (''history'', JArr [burger_order, cancel_order]),
          (''totals'', JObj [(''burger'', JNum 1), (''fries'', JNum 1), (''drink'', JNum 0)])]) \<and>
   map_history example_engine (JArr [burger_order, cancel_order]) =
     Inr [burger_order_mapped, cancel_order_mapped] \<and>
   history (processOrder_resume example_engine (Resolved success_response) busy_state) =
     [burger_order_mapped, cancel_order_mapped] \<and>
   totals (processOrder_resume example_engine (Resolved success_response) busy_state) =
     JObj [(''burger'', JNum 1), (''fries'', JNum 1), (''drink'', JNum 0)] \<and>
   message (processOrder_resume example_engine (Resolved success_response) busy_state) = []"
proof -
  have ok: "response_ok success_response"
    by (simp add: response_ok_def success_response_def)
  have b: "json_body success_response = Parsed (JObj
         [(''status'', JStr ''success''),
          (''history'', JArr [burger_order, cancel_order]),
          (''totals'', JObj [(''burger'', JNum 1), (''fries'', JNum 1), (''drink'', JNum 0)])])"
    by (simp add: success_response_def)
  have m: "map_history example_engine (JArr [burger_order, cancel_order]) =
     Inr [burger_order_mapped, cancel_order_mapped]"
    by (simp add: map_history_def map_record_def map_item_def read_prop_def nullish_def
        burger_order_def cancel_order_def burger_order_mapped_def cancel_order_mapped_def)
  show ?thesis
    using ok b m processOrder_success [OF ok b, of example_engine
        "[burger_order_mapped, cancel_order_mapped]" busy_state]
    by simp
qed

text \<open>
  C2. \<open>loading\<close> is set at the start of every submit and is false again when the submit
  ends, whatever the outcome: the request rejected, the body not JSON, a status outside
  200 to 299, an application-level error, a throw inside the mapper, or success. Nothing
  else changes \<open>loading\<close>: it starts false, \<open>fetchOrders\<close> leaves it alone in every state
  it passes through, and \<open>handleSubmit\<close> sets it only when it starts a submit.
\<close>

theorem loading_released:
  "loading (fst (processOrder_start s)) \<and>
   \<not> loading (processOrder_resume eng fetched s') \<and>
   \<not> loading (processOrder eng fetched s) \<and>
   \<not> loading init_state \<and>
   loading (fetchOrders eng second_first orders totals_p s) = loading s \<and>
   (case fetchOrders_waiting eng second_first orders totals_p s of
      None \<Rightarrow> True | Some s1 \<Rightarrow> loading s1 = loading s) \<and>
   loading (fst (handleSubmit s)) = (if js_trim (message s) = [] then loading s else True)"
  by (auto simp: processOrder_start_def processOrder_resume_def processOrder_def init_state_def
      fetchOrders_def fetchOrders_waiting_def fetchOrders_assign_history_def
      fetchOrders_assign_totals_def fetchOrders_catch_def handleSubmit_def
      split: settled.splits sum.splits body.splits prod.splits if_splits)

theorem loading_released_witness:
  "loading (fst (processOrder_start init_state)) \<and>
   \<not> loading (processOrder_resume example_engine (Resolved not_found_response) busy_state) \<and>
   \<not> loading (processOrder_resume example_engine (Rejected (ErrorObj ''Failed to fetch''))
                busy_state) \<and>
   \<not> loading (processOrder example_engine (Resolved success_response) init_state) \<and>
   loading (fetchOrders example_engine False (Resolved orders_response)
              (Resolved garbled_response) busy_state)"
proof -
  have b: "loading busy_state" by (simp add: busy_state_def)
  from loading_released [of init_state example_engine "Resolved not_found_response" busy_state]
    loading_released [of init_state example_engine "Rejected (ErrorObj ''Failed to fetch'')"
      busy_state]
    loading_released [of init_state example_engine "Resolved success_response" init_state]
    loading_released [of busy_state example_engine "Resolved success_response" busy_state
      False "Resolved orders_response" "Resolved garbled_response"]
  show ?thesis using b by simp
qed

text \<open>
  C3. When the trimmed message is empty, \<open>handleSubmit\<close> is a no-op: it sends no request
  and returns the page state as it was, so \<open>error\<close>, \<open>loading\<close> and the error box are
  what they were.
\<close>

theorem handleSubmit_empty:
  assumes "js_trim (message s) = []"
  shows "handleSubmit s = (s, [])"
  using assms by (simp add: handleSubmit_def)

theorem handleSubmit_empty_witness:
  "js_trim (message (init_state\<lparr>message := ''   ''\<rparr>)) = [] \<and>
   handleSubmit (init_state\<lparr>message := ''   ''\<rparr>) = (init_state\<lparr>message := ''   ''\<rparr>, [])"
proof -
  have t: "js_trim (message (init_state\<lparr>message := ''   ''\<rparr>)) = []"
    by (simp add: js_trim_def is_ws_def)
  show ?thesis using t handleSubmit_empty [OF t] by simp
qed

text \<open>
  C4. When the request of a submit is rejected, or its response has a status outside 200
  to 299, \<open>history\<close> and \<open>totals\<close> stay as they were and \<open>error\<close> becomes a string: the
  message of the error that rejected the request (the generic text when the thrown value
  is not an \<open>Error\<close>); for a parsed body, its \<open>detail\<close> when that is truthy (made a string,
  so a string detail is shown as it is) and the generic text otherwise; for a body that is
  not JSON, the message of the parse error.
\<close>

theorem processOrder_failure:
  assumes "fetched = Rejected e \<or> (fetched = Resolved resp \<and> \<not> response_ok resp)"
  shows "history (processOrder_resume eng fetched s) = history s \<and>
         totals (processOrder_resume eng fetched s) = totals s \<and>
         (\<exists>m. error (processOrder_resume eng fetched s) = JStr m) \<and>
         (\<forall>m. fetched = Rejected (ErrorObj m) \<longrightarrow>
              error (processOrder_resume eng fetched s) = JStr m) \<and>
         (fetched = Rejected NonError \<longrightarrow>
              error (processOrder_resume eng fetched s) = JStr ''Failed to process order'') \<and>
         (\<forall>data. fetched = Resolved resp \<and> json_body resp = Parsed data \<and> \<not> nullish data \<longrightarrow>
              error (processOrder_resume eng fetched s) =
                JStr (if truthy (get data ''detail'') then to_string (get data ''detail'')
                      else ''Failed to process order'')) \<and>
         (\<forall>m. fetched = Resolved resp \<and> json_body resp = Unparsable (ErrorObj m) \<longrightarrow>
              error (processOrder_resume eng fetched s) = JStr m)"
  using assms
proof
  assume "fetched = Rejected e"
  then show ?thesis by (simp add: processOrder_resume_rejected)
next
  assume a: "fetched = Resolved resp \<and> \<not> response_ok resp"
  then obtain x where x: "processOrder_try eng fetched s = Inl x"
    using processOrder_try_not_ok by blast
  have d: "x = ErrorObj (if truthy (get data ''detail'') then to_string (get data ''detail'')
                    else ''Failed to process order'')"
    if "json_body resp = Parsed data" "\<not> nullish data" for data
    using processOrder_try_detail [of resp data eng s] a x that by simp
  have p: "x = ErrorObj m" if "json_body resp = Unparsable (ErrorObj m)" for m
    using a x that by (simp add: processOrder_try_def)
  show ?thesis
    unfolding processOrder_resume_throw [OF x] using a d p by (auto split: thrown.splits)
qed

theorem processOrder_failure_witness:
  "\<not> response_ok not_found_response \<and>
   json_body not_found_response = Parsed (JObj [(''detail'', JStr ''Order not found'')]) \<and>
   history (processOrder_resume example_engine (Resolved not_found_response) busy_state) =
     history busy_state \<and>
   totals (processOrder_resume example_engine (Resolved not_found_response) busy_state) =
     totals busy_state \<and>
   error (processOrder_resume example_engine (Resolved not_found_response) busy_state) =
     JStr ''Order not found'' \<and>
   history (processOrder_resume example_engine (Rejected (ErrorObj ''Failed to fetch''))
              busy_state) = history busy_state \<and>
   totals (processOrder_resume example_engine (Rejected (ErrorObj ''Failed to fetch''))
             busy_state) = totals busy_state \<and>
   error (processOrder_resume example_engine (Rejected (ErrorObj ''Failed to fetch''))
            busy_state) = JStr ''Failed to fetch''"
proof -
  have n: "\<not> response_ok not_found_response"
    by (simp add: response_ok_def not_found_response_def)
  have b: "json_body not_found_response = Parsed (JObj [(''detail'', JStr ''Order not found'')])"
    by (simp add: not_found_response_def)
  have "Resolved not_found_response = Rejected NonError \<or>
      (Resolved not_found_response = Resolved not_found_response \<and> \<not> response_ok not_found_response)"
    using n by simp
  from processOrder_failure [OF this, of example_engine busy_state]
    processOrder_failure [of "Rejected (ErrorObj ''Failed to fetch'')" "ErrorObj ''Failed to fetch''"
      not_found_response example_engine busy_state] n b
  show ?thesis by (simp add: nullish_def)
qed




subsection \<open>History and totals\<close>

lemma processOrder_try_Inr:
  "processOrder_try eng fetched s = Inr s' \<Longrightarrow>
     (history s' = history s \<and> totals s' = totals s) \<or>
     (\<exists>resp data. fetched = Resolved resp \<and> json_body resp = Parsed data \<and>
        map_history eng (get data ''history'') = Inr (history s') \<and>
        totals s' = get data ''totals'')"
  by (auto simp: processOrder_try_def split: settled.splits body.splits sum.splits if_splits)

lemma processOrder_resume_pair:
  "(history (processOrder_resume eng fetched s) = history s \<and>
    totals (processOrder_resume eng fetched s) = totals s) \<or>
   (\<exists>resp data. fetched = Resolved resp \<and> json_body resp = Parsed data \<and>
      map_history eng (get data ''history'') = Inr (history (processOrder_resume eng fetched s)) \<and>
      totals (processOrder_resume eng fetched s) = get data ''totals'')"
proof (cases "processOrder_try eng fetched s")
  case (Inl e)
  then show ?thesis by (simp add: processOrder_resume_def processOrder_catch_def)
next
  case (Inr s')
  from processOrder_try_Inr [OF this] Inr show ?thesis
    by (simp add: processOrder_resume_def)
qed

lemma fetchOrders_both:
  assumes "response_ok ordersRes" and "response_ok totalsRes"
    and "json_body ordersRes = Parsed historyData" and "map_history eng historyData = Inr h"
    and "json_body totalsRes = Parsed t"
  shows "fetchOrders eng second_first (Resolved ordersRes) (Resolved totalsRes) s =
           s\<lparr>history := h, totals := t\<rparr>"
  using assms
  by (simp add: fetchOrders_def fetchOrders_assign_history_def fetchOrders_assign_totals_def)

lemma fetchOrders_neither:
  assumes "fetchOrders_waiting eng second_first orders totals_p s = None"
  shows "\<exists>m. fetchOrders eng second_first orders totals_p s = s\<lparr>error := JStr m\<rparr>"
  using assms
  by (auto simp: fetchOrders_def fetchOrders_waiting_def fetchOrders_catch_def
      split: settled.splits sum.splits prod.splits)

text \<open>
  C6, as amended. A submit replaces \<open>history\<close> and \<open>totals\<close> together, both from its one
  response body, or changes neither. \<open>fetchOrders\<close> takes \<open>history\<close> from the body of
  \<open>/orders\<close> and \<open>totals\<close> from the body of \<open>/totals\<close>, two separate responses: when both
  are successful and both bodies can be used it replaces both, and when it does not get as
  far as assigning \<open>history\<close> (a request rejected, a status outside 200 to 299, an
  \<open>/orders\<close> body that is not JSON or does not map) it changes neither.
\<close>

theorem history_totals_together:
  "((history (processOrder_resume eng fetched s) = history s \<and>
     totals (processOrder_resume eng fetched s) = totals s) \<or>
    (\<exists>resp data. fetched = Resolved resp \<and> json_body resp = Parsed data \<and>
       map_history eng (get data ''history'') = Inr (history (processOrder_resume eng fetched s)) \<and>
       totals (processOrder_resume eng fetched s) = get data ''totals'')) \<and>
   (response_ok ordersRes \<and> response_ok totalsRes \<and>
    json_body ordersRes = Parsed historyData \<and> map_history eng historyData = Inr h \<and>
    json_body totalsRes = Parsed t \<longrightarrow>
      history (fetchOrders eng second_first (Resolved ordersRes) (Resolved totalsRes) s) = h \<and>
      totals (fetchOrders eng second_first (Resolved ordersRes) (Resolved totalsRes) s) = t) \<and>
   (fetchOrders_waiting eng second_first orders totals_p s = None \<longrightarrow>
      history (fetchOrders eng second_first orders totals_p s) = history s \<and>
      totals (fetchOrders eng second_first orders totals_p s) = totals s)"
proof (intro conjI impI)
  show "(history (processOrder_resume eng fetched s) = history s \<and>
     totals (processOrder_resume eng fetched s) = totals s) \<or>
    (\<exists>resp data. fetched = Resolved resp \<and> json_body resp = Parsed data \<and>
       map_history eng (get data ''history'') = Inr (history (processOrder_resume eng fetched s)) \<and>
       totals (processOrder_resume eng fetched s) = get data ''totals'')"
    by (rule processOrder_resume_pair)
next
  assume a: "response_ok ordersRes \<and> response_ok totalsRes \<and>
    json_body ordersRes = Parsed historyData \<and> map_history eng historyData = Inr h \<and>
    json_body totalsRes = Parsed t"
  then have "fetchOrders eng second_first (Resolved ordersRes) (Resolved totalsRes) s =
           s\<lparr>history := h, totals := t\<rparr>"
    by (blast intro: fetchOrders_both)
  then show "history (fetchOrders eng second_first (Resolved ordersRes) (Resolved totalsRes) s) = h"
    and "totals (fetchOrders eng second_first (Resolved ordersRes) (Resolved totalsRes) s) = t"
    by simp_all
next
  assume "fetchOrders_waiting eng second_first orders totals_p s = None"
  from fetchOrders_neither [OF this]
  show "history (fetchOrders eng second_first orders totals_p s) = history s"
    and "totals (fetchOrders eng second_first orders totals_p s) = totals s"
    by auto
qed

theorem history_totals_together_witness:
  "response_ok orders_response \<and> response_ok totals_response \<and>
   json_body orders_response = Parsed (JArr [burger_order]) \<and>
   map_history example_engine (JArr [burger_order]) = Inr [burger_order_mapped] \<and>
   json_body totals_response =
     Parsed (JObj [(''burger'', JNum 1), (''fries'', JNum 1), (''drink'', JNum 0)]) \<and>
   history (fetchOrders example_engine False (Resolved orders_response)
              (Resolved totals_response) init_state) = [burger_order_mapped] \<and>
   totals (fetchOrders example_engine False (Resolved orders_response)
              (Resolved totals_response) init_state) =
     JObj [(''burger'', JNum 1), (''fries'', JNum 1), (''drink'', JNum 0)] \<and>
   fetchOrders_waiting example_engine False (Resolved orders_response)
     (Resolved failed_response) busy_state = None \<and>
   history (fetchOrders example_engine False (Resolved orders_response)
              (Resolved failed_response) busy_state) = history busy_state \<and>
   totals (fetchOrders example_engine False (Resolved orders_response)
              (Resolved failed_response) busy_state) = totals busy_state"
proof -
  have ok: "response_ok orders_response" "response_ok totals_response"
    by (simp_all add: response_ok_def orders_response_def totals_response_def)
  have b: "json_body orders_response = Parsed (JArr [burger_order])"
    "json_body totals_response =
       Parsed (JObj [(''burger'', JNum 1), (''fries'', JNum 1), (''drink'', JNum 0)])"
    by (simp_all add: orders_response_def totals_response_def)
  have m: "map_history example_engine (JArr [burger_order]) = Inr [burger_order_mapped]"
    by (simp add: map_history_def map_record_def map_item_def read_prop_def nullish_def
        burger_order_def burger_order_mapped_def)
  have w: "fetchOrders_waiting example_engine False (Resolved orders_response)
     (Resolved failed_response) busy_state = None"
    by (simp add: fetchOrders_waiting_def fetchOrders_assign_history_def response_ok_def
        failed_response_def)
  from history_totals_together [of example_engine "Resolved success_response" init_state orders_response
      totals_response "JArr [burger_order]" "[burger_order_mapped]"
      "JObj [(''burger'', JNum 1), (''fries'', JNum 1), (''drink'', JNum 0)]" False]
    history_totals_together [of example_engine "Resolved success_response" busy_state _ _ _ _ _ False
      "Resolved orders_response" "Resolved failed_response"]
  show ?thesis using ok b m w by simp
qed

text \<open>
  C6 as stated fails for \<open>fetchOrders\<close>: \<open>history\<close> is assigned before the body of
  \<open>/totals\<close> is read. When that body is not JSON the page ends with the new history and
  the old totals; and with two good responses it holds the new history with the old
  totals while it waits for the second body.
\<close>

theorem fetchOrders_partial_update:
  "history (fetchOrders example_engine False (Resolved orders_response)
              (Resolved garbled_response) init_state) = [burger_order_mapped] \<and>
   totals (fetchOrders example_engine False (Resolved orders_response)
              (Resolved garbled_response) init_state) = totals init_state \<and>
   fetchOrders_waiting example_engine False (Resolved orders_response)
     (Resolved totals_response) init_state = Some (init_state\<lparr>history := [burger_order_mapped]\<rparr>)"
  by (simp add: fetchOrders_def fetchOrders_waiting_def fetchOrders_assign_history_def
      fetchOrders_assign_totals_def fetchOrders_catch_def response_ok_def
      orders_response_def garbled_response_def totals_response_def
      map_history_def map_record_def map_item_def read_prop_def nullish_def
      burger_order_def burger_order_mapped_def)

subsection \<open>The history panel\<close>

lemma item_text_Inr:
  "\<not> nullish i \<Longrightarrow>
   item_text eng i = Inr (to_string (get i ''quantity'') @ '' '' @ to_string (get i ''itemType''))"
  by (simp add: item_text_def read_prop_def)

lemma item_text_nullish: "nullish i \<Longrightarrow> \<exists>e. item_text eng i = Inl e"
  by (simp add: item_text_def read_prop_def)

lemma map_all_item_text_nullish:
  "map_all (item_text eng) xs = Inr ts \<Longrightarrow> x \<in> set xs \<Longrightarrow> \<not> nullish x"
  using item_text_nullish [of _ eng]
  by (induction xs arbitrary: ts) (fastforce split: sum.splits)+

lemma items_text_Inr_iff:
  "items_text eng item = Inr t \<longleftrightarrow>
     (\<exists>its. get item ''items'' = JArr its \<and> (\<forall>i \<in> set its. \<not> nullish i) \<and>
        t = js_join '', ''
              (map (\<lambda>i. to_string (get i ''quantity'') @ '' '' @ to_string (get i ''itemType'')) its))"
proof (cases "\<exists>its. get item ''items'' = JArr its \<and> (\<forall>i \<in> set its. \<not> nullish i)")
  case True
  then obtain its where its: "get item ''items'' = JArr its" "\<forall>i \<in> set its. \<not> nullish i"
    by blast
  then have "map_all (item_text eng) its =
      Inr (map (\<lambda>i. to_string (get i ''quantity'') @ '' '' @ to_string (get i ''itemType'')) its)"
    by (intro map_all_map) (simp add: item_text_Inr)
  with its show ?thesis by (auto simp: items_text_def)
next
  case False
  then have "\<exists>e. js_map eng (item_text eng) (get item ''items'') = Inl e"
    by (cases "get item ''items''")
       (auto dest: map_all_item_text_nullish intro: sum.exhaust)
  with False show ?thesis by (auto simp: items_text_def)
qed

lemma mapped_items:
  assumes "map_record eng r = Inr u"
  shows "\<not> nullish u \<and> (\<exists>its. get u ''items'' = JArr its \<and> (\<forall>i \<in> set its. \<not> nullish i))"
  using assms
  by (auto simp: map_record_Inr_iff nullish_def AList.update_conv')


lemma render_entry_Inr_iff:
  "render_entry eng item = Inr row \<longleftrightarrow>
     \<not> nullish item \<and>
     (\<exists>d. (if get item ''actionType'' = JStr ''cancel'' \<and> truthy (get item ''display_message'')
           then d = Message (get item ''display_message'')
           else (\<exists>t. items_text eng item = Inr t \<and> d = Items t)) \<and>
        row = \<lparr> row_class = ''flex justify-between items-center p-4 rounded-lg '' @
                  (if get item ''actionType'' = JStr ''cancel''
                   then ''bg-red-50 border border-red-200'' else ''bg-gray-50''),
                heading = (if get item ''actionType'' = JStr ''cancel''
                           then Cancelled (get item ''id'')
                           else Plain (get item ''id'') (get item ''actionType'')),
                stamp = get item ''timestamp'',
                detail = d \<rparr>)"
  unfolding render_entry_def read_prop_def
  by (cases "items_text eng item") auto

text \<open>
  C9. Every entry of the history (a mapped record) is rendered, and: a \<open>cancel\<close> entry
  gets the red row and the red \<open>Cancelled\<close> label; a \<open>cancel\<close> entry that carries a display
  message (a truthy \<open>display_message\<close>, that is a string that is not empty) shows that
  message in place of the item list; every other entry, and a \<open>cancel\<close> entry without a
  display message, shows its items as \<open>quantity itemType\<close>, joined by a comma and a space.
\<close>

theorem render_entry_cancel:
  assumes "map_record eng r = Inr item"
  shows "\<exists>row. render_entry eng item = Inr row \<and>
           (get item ''actionType'' = JStr ''cancel'' \<longrightarrow>
              row_class row =
                ''flex justify-between items-center p-4 rounded-lg bg-red-50 border border-red-200'' \<and>
              heading row = Cancelled (get item ''id'')) \<and>
           (get item ''actionType'' = JStr ''cancel'' \<and> truthy (get item ''display_message'') \<longrightarrow>
              detail row = Message (get item ''display_message'')) \<and>
           (\<not> (get item ''actionType'' = JStr ''cancel'' \<and> truthy (get item ''display_message'')) \<longrightarrow>
              (\<exists>its. get item ''items'' = JArr its \<and>
                 detail row = Items (js_join '', ''
                   (map (\<lambda>i. to_string (get i ''quantity'') @ '' '' @ to_string (get i ''itemType''))
                      its))))"
proof -
  from mapped_items [OF assms] obtain its where nn: "\<not> nullish item"
    and its: "get item ''items'' = JArr its" "\<forall>i \<in> set its. \<not> nullish i"
    by blast
  then have t: "items_text eng item = Inr (js_join '', ''
      (map (\<lambda>i. to_string (get i ''quantity'') @ '' '' @ to_string (get i ''itemType'')) its))"
    by (simp add: items_text_Inr_iff)
  show ?thesis
  proof (cases "get item ''actionType'' = JStr ''cancel'' \<and> truthy (get item ''display_message'')")
    case True
    with nn show ?thesis by (simp add: render_entry_Inr_iff)
  next
    case False
    with nn t its(1) show ?thesis by (simp add: render_entry_Inr_iff)
  qed
qed

theorem render_entry_cancel_witness:
  "map_record example_engine cancel_order = Inr cancel_order_mapped \<and>
   get cancel_order_mapped ''actionType'' = JStr ''cancel'' \<and>
   truthy (get cancel_order_mapped ''display_message'') \<and>
   (\<exists>row. render_entry example_engine cancel_order_mapped = Inr row \<and>
      row_class row =
        ''flex justify-between items-center p-4 rounded-lg bg-red-50 border border-red-200'' \<and>
      heading row = Cancelled (JNum 2) \<and>
      detail row = Message (JStr ''Order #2 cancelled'')) \<and>
   map_record example_engine burger_order = Inr burger_order_mapped \<and>
   get burger_order_mapped ''actionType'' \<noteq> JStr ''cancel'' \<and>
   (\<exists>row. render_entry example_engine burger_order_mapped = Inr row \<and>
      detail row = Items ''1 burger, 1 fries'')"
proof -
  have c: "map_record example_engine cancel_order = Inr cancel_order_mapped"
    by (simp add: map_record_def read_prop_def nullish_def cancel_order_def
        cancel_order_mapped_def)
  have b: "map_record example_engine burger_order = Inr burger_order_mapped"
    by (simp add: map_record_def read_prop_def nullish_def map_item_def burger_order_def
        burger_order_mapped_def)
  have gc: "get cancel_order_mapped ''actionType'' = JStr ''cancel''"
    "get cancel_order_mapped ''display_message'' = JStr ''Order #2 cancelled''"
    "get cancel_order_mapped ''id'' = JNum 2"
    by (simp_all add: cancel_order_mapped_def)
  have gb: "get burger_order_mapped ''actionType'' = JStr ''order''"
    "get burger_order_mapped ''display_message'' = JUndefined"
    "get burger_order_mapped ''items'' =
       JArr [JObj [(''itemType'', JStr ''burger''), (''quantity'', JNum 1)],
             JObj [(''itemType'', JStr ''fries''), (''quantity'', JNum 1)]]"
    by (simp_all add: burger_order_mapped_def)
  have one: "num_to_string 1 = ''1''"
    by (simp add: num_to_string_def dec_nat.simps digit_char_def)
  from render_entry_cancel [OF c] have "\<exists>row. render_entry example_engine cancel_order_mapped = Inr row \<and>
      row_class row =
        ''flex justify-between items-center p-4 rounded-lg bg-red-50 border border-red-200'' \<and>
      heading row = Cancelled (JNum 2) \<and>
      detail row = Message (JStr ''Order #2 cancelled'')"
    by (simp add: gc)
  moreover from render_entry_cancel [OF b]
  have "\<exists>row. render_entry example_engine burger_order_mapped = Inr row \<and>
      detail row = Items ''1 burger, 1 fries''"
    by (simp add: gb one)
  ultimately show ?thesis using c b by (simp add: gc gb)
qed

text \<open>
  C10. An entry whose \<open>actionType\<close> is not \<open>cancel\<close> always shows the item listing, also
  when it carries a display message; its label is the plain \<open>#id - actionType\<close> and its
  row is grey. So a display message is shown for \<open>cancel\<close> entries only.
\<close>

theorem render_entry_other:
  assumes "map_record eng r = Inr item" and "get item ''actionType'' \<noteq> JStr ''cancel''"
  shows "\<exists>row its. render_entry eng item = Inr row \<and> get item ''items'' = JArr its \<and>
           detail row = Items (js_join '', ''
             (map (\<lambda>i. to_string (get i ''quantity'') @ '' '' @ to_string (get i ''itemType''))
                its)) \<and>
           heading row = Plain (get item ''id'') (get item ''actionType'') \<and>
           row_class row = ''flex justify-between items-center p-4 rounded-lg bg-gray-50''"
proof -
  from mapped_items [OF assms(1)] obtain its where nn: "\<not> nullish item"
    and its: "get item ''items'' = JArr its" "\<forall>i \<in> set its. \<not> nullish i"
    by blast
  then have t: "items_text eng item = Inr (js_join '', ''
      (map (\<lambda>i. to_string (get i ''quantity'') @ '' '' @ to_string (get i ''itemType'')) its))"
    by (simp add: items_text_Inr_iff)
  with nn its(1) assms(2) show ?thesis by (simp add: render_entry_Inr_iff)
qed

theorem render_entry_other_witness:
  "map_record example_engine noted_order = Inr noted_order_mapped \<and>
   get noted_order_mapped ''actionType'' \<noteq> JStr ''cancel'' \<and>
   truthy (get noted_order_mapped ''display_message'') \<and>
   (\<exists>row. render_entry example_engine noted_order_mapped = Inr row \<and>
      detail row = Items ''2 burger'' \<and>
      heading row = Plain (JNum 3) (JStr ''order''))"
proof -
  have m: "map_record example_engine noted_order = Inr noted_order_mapped"
    by (simp add: map_record_def read_prop_def nullish_def map_item_def noted_order_def
        noted_order_mapped_def)
  have g: "get noted_order_mapped ''actionType'' = JStr ''order''"
    "get noted_order_mapped ''display_message'' = JStr ''Order #3 placed''"
    "get noted_order_mapped ''id'' = JNum 3"
    "get noted_order_mapped ''items'' =
       JArr [JObj [(''itemType'', JStr ''burger''), (''quantity'', JNum 2)]]"
    by (simp_all add: noted_order_mapped_def)
  have n: "get noted_order_mapped ''actionType'' \<noteq> JStr ''cancel''"
    by (simp add: g)
  have two: "num_to_string 2 = ''2''"
    by (simp add: num_to_string_def dec_nat.simps digit_char_def)
  from render_entry_other [OF m n] show ?thesis
    using m by (auto simp: g two)
qed

end
